theory Spec2Isabelle
  imports Main "HOL-Library.Word" "HOL-Library.Char_ord" "HOL-Library.List_Lexorder"
begin

unbundle bit_operations_syntax

section \<open>Errors of the remote store\<close>

text \<open>
  The Go \<open>error\<close> values the controller inspects come from the Kubernetes client.
  A status error carries a reason (\<open>metav1.StatusReason\<close>); any other error has none.
  A nil error is \<open>None\<close> of \<open>error option\<close>.
\<close>

datatype StatusReason =
    StatusReasonUnknown
  | StatusReasonNotFound
  | StatusReasonAlreadyExists
  | StatusReasonConflict
  | StatusReasonOther string

datatype error =
    StatusError StatusReason
  | PlainError string

text \<open>\<open>errors.ReasonForError\<close>: the reason of a status error, unknown for anything else.\<close>

fun ReasonForError :: "error option \<Rightarrow> StatusReason" where
  "ReasonForError None = StatusReasonUnknown"
| "ReasonForError (Some (StatusError r)) = r"
| "ReasonForError (Some (PlainError m)) = StatusReasonUnknown"

definition IsNotFound :: "error option \<Rightarrow> bool" where
  "IsNotFound e = (ReasonForError e = StatusReasonNotFound)"

definition IsAlreadyExists :: "error option \<Rightarrow> bool" where
  "IsAlreadyExists e = (ReasonForError e = StatusReasonAlreadyExists)"

definition IsConflict :: "error option \<Rightarrow> bool" where
  "IsConflict e = (ReasonForError e = StatusReasonConflict)"

text \<open>A Go run-time panic ends the call without a result.\<close>

datatype runtime_panic = IndexOutOfRange | NilPointerDereference

section \<open>The result of one reconciliation step\<close>

text \<open>\<open>time.Duration\<close> counts nanoseconds; only the constants below occur.\<close>

type_synonym Duration = int

definition Second :: Duration where
  "Second = 1000000000"

text \<open>\<open>ctrl.Result\<close> of controller-runtime.\<close>

record ctrl_Result =
  Requeue :: bool
  RequeueAfter :: Duration

record reconcileResult =
  Result :: ctrl_Result
  err :: "error option"
  stop :: bool

text \<open>The zero values \<open>ctrl.Result{}\<close> and \<open>reconcileResult{}\<close>.\<close>

definition zero_Result :: ctrl_Result where
  "zero_Result = \<lparr>Requeue = False, RequeueAfter = 0\<rparr>"

definition zero_reconcileResult :: reconcileResult where
  "zero_reconcileResult = \<lparr>Result = zero_Result, err = None, stop = False\<rparr>"

text \<open>\<open>end()\<close>: terminates the current loop and does not requeue.\<close>

definition end_result :: reconcileResult where
  "end_result = zero_reconcileResult\<lparr>stop := True\<rparr>"

text \<open>\<open>next()\<close>.\<close>

definition next_result :: reconcileResult where
  "next_result = zero_reconcileResult\<lparr>stop := False\<rparr>"

definition requeue :: "Duration \<Rightarrow> error option \<Rightarrow> reconcileResult" where
  "requeue d e =
     (let res = zero_Result\<lparr>RequeueAfter := d\<rparr>;
          res = (if d = 0 then res\<lparr>Requeue := True\<rparr> else res)
      in \<lparr>Result = res, err = e, stop = True\<rparr>)"

definition reconcileError :: "error option \<Rightarrow> reconcileResult" where
  "reconcileError e = zero_reconcileResult\<lparr>stop := True, err := e\<rparr>"

definition creationResult :: "error option \<Rightarrow> reconcileResult" where
  "creationResult e =
     (if e = None then end_result
      else if IsAlreadyExists e then next_result
      else reconcileError e)"

definition updationResult :: "error option \<Rightarrow> reconcileResult" where
  "updationResult e =
     (if e = None then next_result
      else if IsConflict e then requeue (2 * Second) None
      else reconcileError e)"

section \<open>The managed objects\<close>

text \<open>
  The Kubernetes and OLM object types, with the fields the controller sets or reads.
  A Go pointer field is an \<open>option\<close> (\<open>None\<close> is nil). A Go string map is an
  association list.
\<close>

record TypeMeta =
  APIVersion :: string
  Kind :: string

record ObjectMeta =
  Name :: string
  ObjNamespace :: string
  Labels :: "(string \<times> string) list"

record NamespacedName =
  KeyNamespace :: string
  KeyName :: string

record LabelSelector =
  MatchLabels :: "(string \<times> string) list"

text \<open>\<open>corev1.Namespace\<close>; \<open>ns_Phase\<close> is \<open>Status.Phase\<close>.\<close>

record corev1_Namespace =
  ns_TypeMeta :: TypeMeta
  ns_ObjectMeta :: ObjectMeta
  ns_Phase :: string

definition NamespaceActive :: string where
  "NamespaceActive = ''Active''"

record OperatorGroupSpec =
  og_Selector :: "LabelSelector option"
  TargetNamespaces :: "string list"
  ServiceAccountName :: string
  StaticProvidedAPIs :: bool

record operatorsv1_OperatorGroup =
  og_TypeMeta :: TypeMeta
  og_ObjectMeta :: ObjectMeta
  og_Spec :: OperatorGroupSpec

record EnvVar =
  env_Name :: string
  env_Value :: string

record SubscriptionConfig =
  Env :: "EnvVar list"

record SubscriptionSpec =
  CatalogSource :: string
  CatalogSourceNamespace :: string
  Package :: string
  Channel :: string
  InstallPlanApproval :: string
  StartingCSV :: string
  sub_Config :: "SubscriptionConfig option"

record SubscriptionStatus =
  InstalledCSV :: string

text \<open>\<open>v1alpha1.Subscription\<close>: its \<open>Spec\<close> is a pointer.\<close>

record v1alpha1_Subscription =
  sub_TypeMeta :: TypeMeta
  sub_ObjectMeta :: ObjectMeta
  sub_Spec :: "SubscriptionSpec option"
  sub_Status :: SubscriptionStatus

record InstallPlanSpec =
  ClusterServiceVersionNames :: "string list"
  Approval :: string
  Approved :: bool

record BundleLookup =
  bl_Path :: string
  bl_Identifier :: string

record InstallPlanStatus =
  BundleLookups :: "BundleLookup list"

record v1alpha1_InstallPlan =
  ip_TypeMeta :: TypeMeta
  ip_ObjectMeta :: ObjectMeta
  ip_Spec :: InstallPlanSpec
  ip_Status :: InstallPlanStatus

record v1alpha1_ClusterServiceVersion =
  csv_TypeMeta :: TypeMeta
  csv_ObjectMeta :: ObjectMeta

datatype IntOrString = FromInt int | FromString string

record GrafanaIngress =
  ing_Enabled :: bool
  ing_PathType :: string
  ing_Path :: string

record RollingUpdateDeployment =
  MaxUnavailable :: "IntOrString option"
  MaxSurge :: "IntOrString option"

record DeploymentStrategy =
  strategy_Type :: string
  RollingUpdate :: "RollingUpdateDeployment option"

record GrafanaDeployment =
  Replicas :: "int option"
  Strategy :: "DeploymentStrategy option"

record GrafanaConfigLog =
  log_Mode :: string
  log_Level :: string

record GrafanaConfigAuth =
  DisableLoginForm :: "bool option"
  DisableSignoutMenu :: "bool option"

record GrafanaConfigAuthAnonymous =
  anon_Enabled :: "bool option"

record GrafanaConfigUsers =
  ViewersCanEdit :: "bool option"

record GrafanaConfig =
  cfg_Log :: "GrafanaConfigLog option"
  cfg_Auth :: "GrafanaConfigAuth option"
  cfg_AuthAnonymous :: "GrafanaConfigAuthAnonymous option"
  cfg_Users :: "GrafanaConfigUsers option"

record GrafanaSpec =
  Ingress :: "GrafanaIngress option"
  Deployment :: "GrafanaDeployment option"
  DashboardLabelSelector :: "LabelSelector list"
  Config :: GrafanaConfig

record integreatlyv1alpha1_Grafana =
  gr_TypeMeta :: TypeMeta
  gr_ObjectMeta :: ObjectMeta
  gr_Spec :: GrafanaSpec

text \<open>\<open>client.Object\<close>: what is handed to Create, Update and Delete.\<close>

datatype Object =
    NamespaceObj corev1_Namespace
  | OperatorGroupObj operatorsv1_OperatorGroup
  | SubscriptionObj v1alpha1_Subscription
  | InstallPlanObj v1alpha1_InstallPlan
  | ClusterServiceVersionObj v1alpha1_ClusterServiceVersion
  | GrafanaObj integreatlyv1alpha1_Grafana

section \<open>Constants and desired objects\<close>

definition Namespace :: string where
  "Namespace = ''monitoring-stack-operator''"

definition subscriptionName :: string where
  "subscriptionName = ''monitoring-stack-operator-grafana-operator''"

definition operatorGroupName :: string where
  "operatorGroupName = ''monitoring-stack-operator-grafana-operator''"

definition grafanaName :: string where
  "grafanaName = ''monitoring-stack-operator-grafana''"

definition grafanaCSV :: string where
  "grafanaCSV = ''grafana-operator.v4.1.0''"

definition managedBy :: string where
  "managedBy = ''app.kubernetes.io/managed-by''"

definition operatorName :: string where
  "operatorName = ''monitoring-stack-operator''"

definition commonLabels :: "(string \<times> string) list" where
  "commonLabels = [(managedBy, operatorName)]"

definition NewNamespace :: corev1_Namespace where
  "NewNamespace =
     \<lparr>ns_TypeMeta = \<lparr>APIVersion = ''v1'', Kind = ''Namespace''\<rparr>,
      ns_ObjectMeta = \<lparr>Name = Namespace, ObjNamespace = [], Labels = commonLabels\<rparr>,
      ns_Phase = []\<rparr>"

definition NewSubscription :: v1alpha1_Subscription where
  "NewSubscription =
     \<lparr>sub_TypeMeta = \<lparr>APIVersion = ''operators.coreos.com/v1alpha1'', Kind = ''Subscription''\<rparr>,
      sub_ObjectMeta = \<lparr>Name = subscriptionName, ObjNamespace = Namespace, Labels = commonLabels\<rparr>,
      sub_Spec = Some
        \<lparr>CatalogSource = [],
         CatalogSourceNamespace = [],
         Package = ''grafana-operator'',
         Channel = ''v4'',
         InstallPlanApproval = ''Manual'',
         StartingCSV = grafanaCSV,
         sub_Config = Some \<lparr>Env = [\<lparr>env_Name = ''DASHBOARD_NAMESPACES_ALL'', env_Value = ''true''\<rparr>]\<rparr>\<rparr>,
      sub_Status = \<lparr>InstalledCSV = []\<rparr>\<rparr>"

definition NewOperatorGroup :: operatorsv1_OperatorGroup where
  "NewOperatorGroup =
     \<lparr>og_TypeMeta = \<lparr>APIVersion = ''operators.coreos.com/v1'', Kind = ''OperatorGroup''\<rparr>,
      og_ObjectMeta = \<lparr>Name = operatorGroupName, ObjNamespace = Namespace, Labels = commonLabels\<rparr>,
      og_Spec = \<lparr>og_Selector = None, TargetNamespaces = [Namespace],
                 ServiceAccountName = [], StaticProvidedAPIs = False\<rparr>\<rparr>"

definition newGrafana :: integreatlyv1alpha1_Grafana where
  "newGrafana =
     (let flagTrue = True;
          replicas = 1;
          maxUnavailable = FromInt 0;
          maxSurge = FromInt 1
      in
      \<lparr>gr_TypeMeta = \<lparr>APIVersion = ''integreatly.org/v1alpha1'', Kind = ''Grafana''\<rparr>,
       gr_ObjectMeta = \<lparr>Name = grafanaName, ObjNamespace = Namespace, Labels = commonLabels\<rparr>,
       gr_Spec =
         \<lparr>Ingress = Some \<lparr>ing_Enabled = True, ing_PathType = ''Prefix'', ing_Path = ''/''\<rparr>,
          Deployment = Some
            \<lparr>Replicas = Some replicas,
             Strategy = Some
               \<lparr>strategy_Type = ''RollingUpdate'',
                RollingUpdate = Some \<lparr>MaxUnavailable = Some maxUnavailable, MaxSurge = Some maxSurge\<rparr>\<rparr>\<rparr>,
          DashboardLabelSelector =
            [\<lparr>MatchLabels = [(''app.kubernetes.io/part-of'', ''monitoring-stack-operator'')]\<rparr>],
          Config =
            \<lparr>cfg_Log = Some \<lparr>log_Mode = ''console'', log_Level = ''info''\<rparr>,
             cfg_Auth = Some \<lparr>DisableLoginForm = Some flagTrue, DisableSignoutMenu = Some flagTrue\<rparr>,
             cfg_AuthAnonymous = Some \<lparr>anon_Enabled = Some flagTrue\<rparr>,
             cfg_Users = Some \<lparr>ViewersCanEdit = Some flagTrue\<rparr>\<rparr>\<rparr>\<rparr>)"

section \<open>The remote store and the controller, as the reconciler sees them\<close>

text \<open>
  \<open>client.Client\<close> and \<open>controller.Controller\<close> are Go interfaces implemented outside
  this repository. They are parameters of the model: records of functions over a world
  \<open>'w\<close> that nothing is assumed about. A read returns an error or the decoded object;
  a write returns its error (\<open>None\<close> is nil) and the world after the call. Get is one
  function per object type, as the Go client decodes into the variable it is given.
\<close>

record 'w Client =
  Get_Namespace :: "NamespacedName \<Rightarrow> 'w \<Rightarrow> error + corev1_Namespace"
  Get_OperatorGroup :: "NamespacedName \<Rightarrow> 'w \<Rightarrow> error + operatorsv1_OperatorGroup"
  Get_Subscription :: "NamespacedName \<Rightarrow> 'w \<Rightarrow> error + v1alpha1_Subscription"
  Get_Grafana :: "NamespacedName \<Rightarrow> 'w \<Rightarrow> error + integreatlyv1alpha1_Grafana"
  List_InstallPlans :: "string \<Rightarrow> 'w \<Rightarrow> error + v1alpha1_InstallPlan list"
  List_GrafanaDataSources :: "string \<Rightarrow> 'w \<Rightarrow> error option"
  Create :: "Object \<Rightarrow> 'w \<Rightarrow> error option \<times> 'w"
  Update :: "Object \<Rightarrow> 'w \<Rightarrow> error option \<times> 'w"
  Delete :: "Object \<Rightarrow> 'w \<Rightarrow> error option \<times> 'w"

text \<open>The kinds a watch is registered for (\<open>source.NewKindWithCache\<close>).\<close>

datatype SourceKind =
    KindNamespace | KindOperatorGroup | KindSubscription | KindInstallPlan | KindGrafana

record 'w Controller =
  Watch :: "SourceKind \<Rightarrow> 'w \<Rightarrow> error option \<times> 'w"

text \<open>
  The \<open>reconciler\<close> struct. Its cache, scheme and logger are not observed by any
  step below and are left out; log output is not modelled.
\<close>

record 'w reconciler =
  controller :: "'w Controller"
  grafanaWatchEstablished :: bool
  nsClient :: "'w Client"

text \<open>
  A step is a method of \<open>*reconciler\<close>: it takes the reconciler and the world, and either
  panics or returns its result with the reconciler and the world as it left them.
\<close>

type_synonym 'w outcome = "runtime_panic + (reconcileResult \<times> 'w reconciler \<times> 'w)"

type_synonym 'w ReconcileFunc = "'w reconciler \<Rightarrow> 'w \<Rightarrow> 'w outcome"

section \<open>The reconciliation steps\<close>

definition reconcileNamespace :: "'w ReconcileFunc" where
  "reconcileNamespace r w =
     (let key = \<lparr>KeyNamespace = [], KeyName = Namespace\<rparr> in
      case Get_Namespace (nsClient r) key w of
        Inl e \<Rightarrow>
          if \<not> IsNotFound (Some e) then Inr (reconcileError (Some e), r, w)
          else (case Create (nsClient r) (NamespaceObj NewNamespace) w of
                  (e', w') \<Rightarrow> Inr (creationResult e', r, w'))
      | Inr namespace \<Rightarrow>
          if ns_Phase namespace \<noteq> NamespaceActive then Inr (end_result, r, w)
          else Inr (next_result, r, w))"

definition reconcileOperatorGroup :: "'w ReconcileFunc" where
  "reconcileOperatorGroup r w =
     (let key = \<lparr>KeyNamespace = Namespace, KeyName = operatorGroupName\<rparr>;
          desired = NewOperatorGroup
      in
      case Get_OperatorGroup (nsClient r) key w of
        Inl e \<Rightarrow>
          if \<not> IsNotFound (Some e) then Inr (reconcileError (Some e), r, w)
          else (case Create (nsClient r) (OperatorGroupObj desired) w of
                  (e', w') \<Rightarrow> Inr (creationResult e', r, w'))
      | Inr operatorGroup \<Rightarrow>
          if og_Spec operatorGroup \<noteq> og_Spec desired then
            (case Update (nsClient r)
                    (OperatorGroupObj (operatorGroup\<lparr>og_Spec := og_Spec desired\<rparr>)) w of
               (e', w') \<Rightarrow> Inr (updationResult e', r, w'))
          else Inr (next_result, r, w))"

text \<open>
  \<open>reconcileSubscription\<close>. Reading \<open>subscription.Spec.StartingCSV\<close> dereferences the
  \<open>Spec\<close> pointer of the object that was read.
\<close>

definition reconcileSubscription :: "'w ReconcileFunc" where
  "reconcileSubscription r w =
     (let key = \<lparr>KeyNamespace = Namespace, KeyName = subscriptionName\<rparr>;
          desired = NewSubscription
      in
      case Get_Subscription (nsClient r) key w of
        Inl e \<Rightarrow>
          if \<not> IsNotFound (Some e) then Inr (reconcileError (Some e), r, w)
          else (case Create (nsClient r) (SubscriptionObj desired) w of
                  (e', w') \<Rightarrow> Inr (creationResult e', r, w'))
      | Inr subscription \<Rightarrow>
          (case (sub_Spec subscription, sub_Spec desired) of
             (Some spec, Some desiredSpec) \<Rightarrow>
               if StartingCSV spec = StartingCSV desiredSpec then Inr (next_result, r, w)
               else
                 (case Delete (nsClient r) (SubscriptionObj subscription) w of
                    (Some e1, w1) \<Rightarrow> Inr (reconcileError (Some e1), r, w1)
                  | (None, w1) \<Rightarrow>
                      (let csv =
                         \<lparr>csv_TypeMeta =
                            \<lparr>APIVersion = ''operators.coreos.com/v1alpha1'',
                             Kind = ''ClusterServiceVersion''\<rparr>,
                          csv_ObjectMeta =
                            \<lparr>Name = InstalledCSV (sub_Status subscription),
                             ObjNamespace = Namespace,
                             Labels = commonLabels\<rparr>\<rparr>
                       in
                       case Delete (nsClient r) (ClusterServiceVersionObj csv) w1 of
                         (Some e2, w2) \<Rightarrow> Inr (reconcileError (Some e2), r, w2)
                       | (None, w2) \<Rightarrow>
                           (case Create (nsClient r) (SubscriptionObj subscription) w2 of
                              (e3, w3) \<Rightarrow> Inr (creationResult e3, r, w3))))
           | _ \<Rightarrow> Inl NilPointerDereference))"

text \<open>
  The loop of \<open>approveInstallPlan\<close> over the listed plans. It ends in one of three ways:
  a panic on \<open>ClusterServiceVersionNames[0]\<close>, an early \<open>return next()\<close> (\<open>Inl\<close>), or
  falling out of the loop with the value of \<open>approvePlan\<close> (\<open>Inr\<close>; \<open>None\<close> is nil).
\<close>

fun approveInstallPlan_loop ::
  "v1alpha1_InstallPlan list \<Rightarrow> runtime_panic + (reconcileResult + v1alpha1_InstallPlan option)"
where
  "approveInstallPlan_loop [] = Inr (Inr None)"
| "approveInstallPlan_loop (installPlan # items) =
     (case ClusterServiceVersionNames (ip_Spec installPlan) of
        [] \<Rightarrow> Inl IndexOutOfRange
      | csv # _ \<Rightarrow>
          if csv \<noteq> grafanaCSV \<or> length (BundleLookups (ip_Status installPlan)) = 0
          then approveInstallPlan_loop items
          else if Approved (ip_Spec installPlan) then Inr (Inl next_result)
          else Inr (Inr (Some installPlan)))"

definition approveInstallPlan :: "'w ReconcileFunc" where
  "approveInstallPlan r w =
     (case List_InstallPlans (nsClient r) Namespace w of
        Inl e \<Rightarrow> Inr (reconcileError (Some e), r, w)
      | Inr items \<Rightarrow>
          if length items = 0 then Inr (end_result, r, w)
          else
            (case approveInstallPlan_loop items of
               Inl p \<Rightarrow> Inl p
             | Inr (Inl res) \<Rightarrow> Inr (res, r, w)
             | Inr (Inr None) \<Rightarrow> Inr (end_result, r, w)
             | Inr (Inr (Some approvePlan)) \<Rightarrow>
                 (let approved =
                    approvePlan\<lparr>ip_Spec := (ip_Spec approvePlan)\<lparr>Approved := True\<rparr>\<rparr>
                  in
                  case Update (nsClient r) (InstallPlanObj approved) w of
                    (e', w') \<Rightarrow> Inr (updationResult e', r, w'))))"

definition setGrafanaWatch :: "'w ReconcileFunc" where
  "setGrafanaWatch r w =
     (if grafanaWatchEstablished r then Inr (next_result, r, w)
      else
        (case List_GrafanaDataSources (nsClient r) ''default'' w of
           Some e \<Rightarrow> Inr (requeue (10 * Second) None, r, w)
         | None \<Rightarrow>
             (case Watch (controller r) KindGrafana w of
                (Some e, w') \<Rightarrow> Inr (reconcileError (Some e), r, w')
              | (None, w') \<Rightarrow>
                  Inr (next_result, r\<lparr>grafanaWatchEstablished := True\<rparr>, w'))))"

definition reconcileGrafana :: "'w ReconcileFunc" where
  "reconcileGrafana r w =
     (let key = \<lparr>KeyNamespace = Namespace, KeyName = grafanaName\<rparr>;
          desired = newGrafana
      in
      case Get_Grafana (nsClient r) key w of
        Inl e \<Rightarrow>
          if \<not> IsNotFound (Some e) then Inr (reconcileError (Some e), r, w)
          else (case Create (nsClient r) (GrafanaObj desired) w of
                  (e', w') \<Rightarrow> Inr (creationResult e', r, w'))
      | Inr grafana \<Rightarrow>
          if gr_Spec desired \<noteq> gr_Spec grafana then
            (case Update (nsClient r) (GrafanaObj (grafana\<lparr>gr_Spec := gr_Spec desired\<rparr>)) w of
               (e', w') \<Rightarrow> Inr (updationResult e', r, w'))
          else Inr (next_result, r, w))"

section \<open>The step pipeline\<close>

text \<open>
  The closure \<open>result\<close> of \<open>Reconcile\<close>: what the scheduler is handed, the embedded
  \<open>ctrl.Result\<close> and the error.
\<close>

definition result :: "reconcileResult \<Rightarrow> ctrl_Result \<times> error option" where
  "result res = (Result res, err res)"

text \<open>The loop of \<open>Reconcile\<close> over the list \<open>reconcilers\<close>.\<close>

fun Reconcile_loop ::
  "'w ReconcileFunc list \<Rightarrow> 'w reconciler \<Rightarrow> 'w
     \<Rightarrow> runtime_panic + ((ctrl_Result \<times> error option) \<times> 'w reconciler \<times> 'w)"
where
  "Reconcile_loop [] r w = Inr (result zero_reconcileResult, r, w)"
| "Reconcile_loop (reconciler # reconcilers) r w =
     (case reconciler r w of
        Inl p \<Rightarrow> Inl p
      | Inr (res, r', w') \<Rightarrow>
          if stop res then Inr (result res, r', w')
          else Reconcile_loop reconcilers r' w')"

definition reconcilers :: "'w ReconcileFunc list" where
  "reconcilers =
     [reconcileNamespace,
      reconcileOperatorGroup,
      reconcileSubscription,
      approveInstallPlan,
      setGrafanaWatch,
      reconcileGrafana]"

definition Reconcile ::
  "'w reconciler \<Rightarrow> 'w \<Rightarrow> runtime_panic + ((ctrl_Result \<times> error option) \<times> 'w reconciler \<times> 'w)"
where
  "Reconcile r w = Reconcile_loop reconcilers r w"

section \<open>The config-map digest\<close>

text \<open>
  \<open>corev1.ConfigMap\<close>. \<open>Data\<close> is a Go map: an association list with distinct keys,
  whose order stands for the order in which \<open>range\<close> happens to visit the map.
\<close>

record corev1_ConfigMap =
  cm_TypeMeta :: TypeMeta
  cm_ObjectMeta :: ObjectMeta
  Data :: "(string \<times> string) list"

text \<open>Indexing a Go map: the zero value (the empty string) for a missing key.\<close>

definition map_index :: "(string \<times> string) list \<Rightarrow> string \<Rightarrow> string" where
  "map_index m k = (case map_of m k of None \<Rightarrow> [] | Some v \<Rightarrow> v)"

text \<open>
  \<open>hash/fnv\<close> of the Go standard library, the 32-bit FNV-1a hash: \<open>New32a\<close> starts at
  the offset basis, \<open>Write\<close> folds each byte in by xor and a wrapping multiplication,
  \<open>Sum(nil)\<close> is the four bytes of the state, most significant first.
\<close>

definition offset32 :: "32 word" where
  "offset32 = 2166136261"

definition prime32 :: "32 word" where
  "prime32 = 16777619"

definition New32a :: "32 word" where
  "New32a = offset32"

fun sum32a_Write :: "32 word \<Rightarrow> string \<Rightarrow> 32 word" where
  "sum32a_Write hash [] = hash"
| "sum32a_Write hash (c # data) = sum32a_Write ((hash XOR of_char c) * prime32) data"

definition sum32a_Sum :: "32 word \<Rightarrow> 8 word list" where
  "sum32a_Sum v =
     [ucast (drop_bit 24 v), ucast (drop_bit 16 v), ucast (drop_bit 8 v), ucast v]"

text \<open>\<open>fmt.Sprintf("%x", b)\<close> on a byte slice: two lower-case hex digits per byte.\<close>

definition hexDigit :: "nat \<Rightarrow> char" where
  "hexDigit n = ''0123456789abcdef'' ! n"

definition hexByte :: "8 word \<Rightarrow> string" where
  "hexByte b = [hexDigit (unat (drop_bit 4 b)), hexDigit (unat (b AND 15))]"

definition Sprintf_x :: "8 word list \<Rightarrow> string" where
  "Sprintf_x bs = concat (map hexByte bs)"

definition hashSeparator :: string where
  "hashSeparator = [CHR 0x0A]"

text \<open>The second loop of \<open>computeConfigMapHash\<close>: four writes for each key.\<close>

fun computeConfigMapHash_loop ::
  "(string \<times> string) list \<Rightarrow> 32 word \<Rightarrow> string list \<Rightarrow> 32 word"
where
  "computeConfigMapHash_loop data h [] = h"
| "computeConfigMapHash_loop data h (k # keys) =
     (let h = sum32a_Write h k;
          h = sum32a_Write h hashSeparator;
          h = sum32a_Write h (map_index data k);
          h = sum32a_Write h hashSeparator
      in computeConfigMapHash_loop data h keys)"

text \<open>
  \<open>computeConfigMapHash\<close> takes a pointer and reads \<open>cm.Data\<close> through it. The keys are
  collected in iteration order and then sorted as Go compares strings, byte by byte.
\<close>

definition computeConfigMapHash :: "corev1_ConfigMap option \<Rightarrow> runtime_panic + string" where
  "computeConfigMapHash cm =
     (case cm of
        None \<Rightarrow> Inl NilPointerDereference
      | Some c \<Rightarrow>
          (let keys = map fst (Data c);
               keys = sort keys;
               h = computeConfigMapHash_loop (Data c) New32a keys
           in Inr (Sprintf_x (sum32a_Sum h))))"

text \<open>
  The bytes the loop writes to the hash, in order: for stating what the digest is the
  hash of.
\<close>

definition writtenBytes :: "(string \<times> string) list \<Rightarrow> string" where
  "writtenBytes data =
     concat (map (\<lambda>k. k @ hashSeparator @ map_index data k @ hashSeparator)
               (sort (map fst data)))"

text \<open>Replacing the value stored under one key of a map.\<close>

definition setValue :: "(string \<times> string) list \<Rightarrow> string \<Rightarrow> string \<Rightarrow> (string \<times> string) list" where
  "setValue data k v = map (\<lambda>(k', v'). if k' = k then (k', v) else (k', v')) data"

section \<open>An in-memory store for concrete scenarios\<close>

text \<open>
  One implementation of the two interfaces, to run the steps on explicit inputs: the
  stored objects, whether the GrafanaDataSource kind is served, the error a watch
  registration meets (if any), the watches registered, and a log of every write call in
  the order it was issued. Objects are identified by type, namespace and name.
\<close>

datatype Call = CreateCall Object | UpdateCall Object | DeleteCall Object

record Store =
  objects :: "Object list"
  dataSourceKindServed :: bool
  watchError :: "error option"
  watches :: "SourceKind list"
  calls :: "Call list"

fun objectKey :: "Object \<Rightarrow> string \<times> NamespacedName" where
  "objectKey (NamespaceObj x) =
     (''Namespace'',
      \<lparr>KeyNamespace = ObjNamespace (ns_ObjectMeta x), KeyName = Name (ns_ObjectMeta x)\<rparr>)"
| "objectKey (OperatorGroupObj x) =
     (''OperatorGroup'',
      \<lparr>KeyNamespace = ObjNamespace (og_ObjectMeta x), KeyName = Name (og_ObjectMeta x)\<rparr>)"
| "objectKey (SubscriptionObj x) =
     (''Subscription'',
      \<lparr>KeyNamespace = ObjNamespace (sub_ObjectMeta x), KeyName = Name (sub_ObjectMeta x)\<rparr>)"
| "objectKey (InstallPlanObj x) =
     (''InstallPlan'',
      \<lparr>KeyNamespace = ObjNamespace (ip_ObjectMeta x), KeyName = Name (ip_ObjectMeta x)\<rparr>)"
| "objectKey (ClusterServiceVersionObj x) =
     (''ClusterServiceVersion'',
      \<lparr>KeyNamespace = ObjNamespace (csv_ObjectMeta x), KeyName = Name (csv_ObjectMeta x)\<rparr>)"
| "objectKey (GrafanaObj x) =
     (''Grafana'',
      \<lparr>KeyNamespace = ObjNamespace (gr_ObjectMeta x), KeyName = Name (gr_ObjectMeta x)\<rparr>)"

definition stored :: "Object \<Rightarrow> Store \<Rightarrow> bool" where
  "stored obj w = (objectKey obj \<in> set (map objectKey (objects w)))"

fun asNamespace :: "Object \<Rightarrow> corev1_Namespace option" where
  "asNamespace (NamespaceObj x) = Some x"
| "asNamespace _ = None"

fun asOperatorGroup :: "Object \<Rightarrow> operatorsv1_OperatorGroup option" where
  "asOperatorGroup (OperatorGroupObj x) = Some x"
| "asOperatorGroup _ = None"

fun asSubscription :: "Object \<Rightarrow> v1alpha1_Subscription option" where
  "asSubscription (SubscriptionObj x) = Some x"
| "asSubscription _ = None"

fun asInstallPlan :: "Object \<Rightarrow> v1alpha1_InstallPlan option" where
  "asInstallPlan (InstallPlanObj x) = Some x"
| "asInstallPlan _ = None"

fun asGrafana :: "Object \<Rightarrow> integreatlyv1alpha1_Grafana option" where
  "asGrafana (GrafanaObj x) = Some x"
| "asGrafana _ = None"

definition notFound :: error where
  "notFound = StatusError StatusReasonNotFound"

definition storeGet ::
  "(Object \<Rightarrow> 'a option) \<Rightarrow> string \<Rightarrow> NamespacedName \<Rightarrow> Store \<Rightarrow> error + 'a"
where
  "storeGet as kind key w =
     (case List.map_filter as (filter (\<lambda>obj. objectKey obj = (kind, key)) (objects w)) of
        [] \<Rightarrow> Inl notFound
      | x # _ \<Rightarrow> Inr x)"

definition storeListInstallPlans :: "string \<Rightarrow> Store \<Rightarrow> error + v1alpha1_InstallPlan list" where
  "storeListInstallPlans ns w =
     Inr (filter (\<lambda>p. ObjNamespace (ip_ObjectMeta p) = ns)
            (List.map_filter asInstallPlan (objects w)))"

definition storeListGrafanaDataSources :: "string \<Rightarrow> Store \<Rightarrow> error option" where
  "storeListGrafanaDataSources ns w =
     (if dataSourceKindServed w then None
      else Some (PlainError ''no matches for kind GrafanaDataSource''))"

definition storeCreate :: "Object \<Rightarrow> Store \<Rightarrow> error option \<times> Store" where
  "storeCreate obj w =
     (let w = w\<lparr>calls := calls w @ [CreateCall obj]\<rparr> in
      if stored obj w then (Some (StatusError StatusReasonAlreadyExists), w)
      else (None, w\<lparr>objects := objects w @ [obj]\<rparr>))"

definition storeUpdate :: "Object \<Rightarrow> Store \<Rightarrow> error option \<times> Store" where
  "storeUpdate obj w =
     (let w = w\<lparr>calls := calls w @ [UpdateCall obj]\<rparr> in
      if stored obj w then
        (None, w\<lparr>objects := map (\<lambda>old. if objectKey old = objectKey obj then obj else old)
                                (objects w)\<rparr>)
      else (Some notFound, w))"

definition storeDelete :: "Object \<Rightarrow> Store \<Rightarrow> error option \<times> Store" where
  "storeDelete obj w =
     (let w = w\<lparr>calls := calls w @ [DeleteCall obj]\<rparr> in
      if stored obj w then
        (None, w\<lparr>objects := filter (\<lambda>old. objectKey old \<noteq> objectKey obj) (objects w)\<rparr>)
      else (Some notFound, w))"

definition storeWatch :: "SourceKind \<Rightarrow> Store \<Rightarrow> error option \<times> Store" where
  "storeWatch kind w =
     (case watchError w of
        Some e \<Rightarrow> (Some e, w)
      | None \<Rightarrow> (None, w\<lparr>watches := watches w @ [kind]\<rparr>))"

definition storeClient :: "Store Client" where
  "storeClient =
     \<lparr>Get_Namespace = storeGet asNamespace ''Namespace'',
      Get_OperatorGroup = storeGet asOperatorGroup ''OperatorGroup'',
      Get_Subscription = storeGet asSubscription ''Subscription'',
      Get_Grafana = storeGet asGrafana ''Grafana'',
      List_InstallPlans = storeListInstallPlans,
      List_GrafanaDataSources = storeListGrafanaDataSources,
      Create = storeCreate,
      Update = storeUpdate,
      Delete = storeDelete\<rparr>"

definition storeController :: "Store Controller" where
  "storeController = \<lparr>Watch = storeWatch\<rparr>"

text \<open>
  The reconciler as \<open>RegisterWithManager\<close> builds it: the struct literal leaves
  \<open>grafanaWatchEstablished\<close> at its zero value.
\<close>

definition newReconciler :: "Store reconciler" where
  "newReconciler =
     \<lparr>controller = storeController, grafanaWatchEstablished = False, nsClient = storeClient\<rparr>"

text \<open>What a scenario looks at: the result, the flag and the store left behind.\<close>

definition observe :: "Store outcome \<Rightarrow> runtime_panic + (reconcileResult \<times> bool \<times> Store)" where
  "observe out =
     (case out of
        Inl p \<Rightarrow> Inl p
      | Inr (res, r, w) \<Rightarrow> Inr (res, grafanaWatchEstablished r, w))"

definition emptyStore :: Store where
  "emptyStore =
     \<lparr>objects = [], dataSourceKindServed = True, watchError = None, watches = [], calls = []\<rparr>"

text \<open>An install plan in the operator's namespace.\<close>

definition installPlan :: "string \<Rightarrow> string list \<Rightarrow> bool \<Rightarrow> BundleLookup list \<Rightarrow> v1alpha1_InstallPlan" where
  "installPlan name csvs approved lookups =
     \<lparr>ip_TypeMeta = \<lparr>APIVersion = ''operators.coreos.com/v1alpha1'', Kind = ''InstallPlan''\<rparr>,
      ip_ObjectMeta = \<lparr>Name = name, ObjNamespace = Namespace, Labels = []\<rparr>,
      ip_Spec = \<lparr>ClusterServiceVersionNames = csvs, Approval = ''Manual'', Approved = approved\<rparr>,
      ip_Status = \<lparr>BundleLookups = lookups\<rparr>\<rparr>"

definition aLookup :: BundleLookup where
  "aLookup = \<lparr>bl_Path = ''quay.io/grafana-operator/bundle'', bl_Identifier = ''grafana-operator''\<rparr>"

section \<open>Notions used to state the properties\<close>

text \<open>
  Running a list of steps in order, each on the reconciler and world the previous one
  left, as long as every step returns with \<open>stop = false\<close>: the state after the last
  step, or \<open>None\<close> if some step panics or stops.
\<close>

fun stepsContinue ::
  "'w ReconcileFunc list \<Rightarrow> 'w reconciler \<Rightarrow> 'w \<Rightarrow> ('w reconciler \<times> 'w) option"
where
  "stepsContinue [] r w = Some (r, w)"
| "stepsContinue (f # fs) r w =
     (case f r w of
        Inl p \<Rightarrow> None
      | Inr (res, r', w') \<Rightarrow> if stop res then None else stepsContinue fs r' w')"

text \<open>
  The match condition of \<open>approveInstallPlan\<close> on a plan with at least one name: the
  first name is the desired CSV and the bundle lookups are not empty.
\<close>

definition planMatches :: "v1alpha1_InstallPlan \<Rightarrow> bool" where
  "planMatches p =
     (case ClusterServiceVersionNames (ip_Spec p) of
        [] \<Rightarrow> False
      | csv # _ \<Rightarrow> csv = grafanaCSV \<and> BundleLookups (ip_Status p) \<noteq> [])"

text \<open>The plan with \<open>Spec.Approved\<close> set.\<close>

definition approve :: "v1alpha1_InstallPlan \<Rightarrow> v1alpha1_InstallPlan" where
  "approve p = p\<lparr>ip_Spec := (ip_Spec p)\<lparr>Approved := True\<rparr>\<rparr>"

text \<open>
  The selection as the specification words it: the list of target versions contains the
  desired CSV, the bundle lookups are not empty, and the plan is not yet approved.
\<close>

definition statedMatch :: "v1alpha1_InstallPlan \<Rightarrow> bool" where
  "statedMatch p =
     (grafanaCSV \<in> set (ClusterServiceVersionNames (ip_Spec p))
      \<and> BundleLookups (ip_Status p) \<noteq> []
      \<and> \<not> Approved (ip_Spec p))"

section \<open>Concrete scenarios\<close>

definition storeOf :: "Object list \<Rightarrow> Store" where
  "storeOf objs = emptyStore\<lparr>objects := objs\<rparr>"

definition activeNamespace :: corev1_Namespace where
  "activeNamespace = NewNamespace\<lparr>ns_Phase := NamespaceActive\<rparr>"

definition planOther :: v1alpha1_InstallPlan where
  "planOther = installPlan ''install-7xk2p'' [''prometheus-operator.v0.50.0''] False [aLookup]"

definition planGrafana :: v1alpha1_InstallPlan where
  "planGrafana = installPlan ''install-b9q4m'' [grafanaCSV] False [aLookup]"

definition planGrafanaLater :: v1alpha1_InstallPlan where
  "planGrafanaLater = installPlan ''install-c3d8w'' [grafanaCSV] False [aLookup]"

text \<open>A plan that installs two CSVs, the desired one second.\<close>

definition planBundled :: v1alpha1_InstallPlan where
  "planBundled =
     installPlan ''install-d5t1z'' [''prometheus-operator.v0.50.0'', grafanaCSV] False [aLookup]"

text \<open>A plan whose list of CSV names is empty.\<close>

definition planNoNames :: v1alpha1_InstallPlan where
  "planNoNames = installPlan ''install-e0h6r'' [] False []"

text \<open>A subscription left over from an older release, and the CSV it installed.\<close>

definition staleCSV :: string where
  "staleCSV = ''grafana-operator.v3.10.3''"

definition staleSubscription :: v1alpha1_Subscription where
  "staleSubscription =
     NewSubscription
       \<lparr>sub_Spec := map_option (\<lambda>spec. spec\<lparr>StartingCSV := staleCSV\<rparr>) (sub_Spec NewSubscription),
        sub_Status := \<lparr>InstalledCSV = staleCSV\<rparr>\<rparr>"

definition installedCSV :: v1alpha1_ClusterServiceVersion where
  "installedCSV =
     \<lparr>csv_TypeMeta =
        \<lparr>APIVersion = ''operators.coreos.com/v1alpha1'', Kind = ''ClusterServiceVersion''\<rparr>,
      csv_ObjectMeta = \<lparr>Name = staleCSV, ObjNamespace = Namespace, Labels = commonLabels\<rparr>\<rparr>"

definition pluginConfig :: corev1_ConfigMap where
  "pluginConfig =
     \<lparr>cm_TypeMeta = \<lparr>APIVersion = ''v1'', Kind = ''ConfigMap''\<rparr>,
      cm_ObjectMeta = \<lparr>Name = ''logging'', ObjNamespace = ''operators'', Labels = []\<rparr>,
      Data = [(''b'', ''2''), (''a'', ''1'')]\<rparr>"

section \<open>Evaluation rules\<close>

lemmas result_defs =
  end_result_def next_result_def requeue_def reconcileError_def
  zero_reconcileResult_def zero_Result_def

lemma IsConflict_iff: "IsConflict e \<longleftrightarrow> e = Some (StatusError StatusReasonConflict)"
  by (cases e rule: ReasonForError.cases) (simp_all add: IsConflict_def)

lemma IsAlreadyExists_iff:
  "IsAlreadyExists e \<longleftrightarrow> e = Some (StatusError StatusReasonAlreadyExists)"
  by (cases e rule: ReasonForError.cases) (simp_all add: IsAlreadyExists_def)

lemma IsNotFound_iff: "IsNotFound e \<longleftrightarrow> e = Some (StatusError StatusReasonNotFound)"
  by (cases e rule: ReasonForError.cases) (simp_all add: IsNotFound_def)

lemma newReconciler_simps:
  "nsClient newReconciler = storeClient"
  "controller newReconciler = storeController"
  "grafanaWatchEstablished newReconciler = False"
  by (simp_all add: newReconciler_def)

lemma storeClient_simps:
  "Get_Namespace storeClient = storeGet asNamespace ''Namespace''"
  "Get_OperatorGroup storeClient = storeGet asOperatorGroup ''OperatorGroup''"
  "Get_Subscription storeClient = storeGet asSubscription ''Subscription''"
  "Get_Grafana storeClient = storeGet asGrafana ''Grafana''"
  "List_InstallPlans storeClient = storeListInstallPlans"
  "List_GrafanaDataSources storeClient = storeListGrafanaDataSources"
  "Create storeClient = storeCreate"
  "Update storeClient = storeUpdate"
  "Delete storeClient = storeDelete"
  "Watch storeController = storeWatch"
  by (simp_all add: storeClient_def storeController_def)

lemmas store_defs =
  newReconciler_simps storeClient_simps
  storeGet_def storeListInstallPlans_def storeListGrafanaDataSources_def
  storeCreate_def storeUpdate_def storeDelete_def storeWatch_def stored_def
  storeOf_def emptyStore_def notFound_def

lemmas object_defs =
  installPlan_def aLookup_def planOther_def planGrafana_def planGrafanaLater_def
  planBundled_def planNoNames_def Namespace_def grafanaCSV_def

lemmas scenario_defs =
  staleSubscription_def installedCSV_def staleCSV_def NewSubscription_def
  subscriptionName_def commonLabels_def activeNamespace_def NewNamespace_def
  NamespaceActive_def NewOperatorGroup_def operatorGroupName_def

section \<open>Result constructors\<close>

text \<open>
  Claim C6: every result built by \<open>end\<close>, \<open>next\<close>, \<open>requeue\<close>, \<open>reconcileError\<close>,
  \<open>creationResult\<close> or \<open>updationResult\<close> that carries an error has \<open>stop\<close> set.
\<close>

theorem constructors_error_implies_stop:
  "\<forall>res \<in> {end_result, next_result, requeue d e, reconcileError e,
             creationResult e, updationResult e}.
     err res \<noteq> None \<longrightarrow> stop res"
  by (simp add: creationResult_def updationResult_def result_defs Let_def)

theorem constructors_error_implies_stop_witness:
  "err (reconcileError (Some (PlainError ''connection refused''))) \<noteq> None
   \<and> stop (reconcileError (Some (PlainError ''connection refused'')))
   \<and> err (updationResult (Some (PlainError ''connection refused''))) \<noteq> None
   \<and> stop (updationResult (Some (PlainError ''connection refused'')))"
proof -
  let ?e = "Some (PlainError ''connection refused'')"
  have a: "err (reconcileError ?e) \<noteq> None"
    by (simp add: reconcileError_def)
  have b: "err (updationResult ?e) \<noteq> None"
    by (simp add: updationResult_def reconcileError_def IsConflict_iff)
  from a b constructors_error_implies_stop [of 0 ?e] show ?thesis
    by simp
qed

text \<open>
  Claim C7: on a version-conflict error \<open>updationResult\<close> returns no error, \<open>stop\<close> set
  and a requeue delay of two seconds, which is not zero; on any other error it returns
  that error with \<open>stop\<close> set.
\<close>

theorem updationResult_conflict_requeues:
  "(IsConflict (Some e) \<longrightarrow>
      err (updationResult (Some e)) = None
      \<and> stop (updationResult (Some e))
      \<and> Result (updationResult (Some e)) = \<lparr>Requeue = False, RequeueAfter = 2 * Second\<rparr>
      \<and> RequeueAfter (Result (updationResult (Some e))) \<noteq> 0)
   \<and> (\<not> IsConflict (Some e) \<longrightarrow>
      updationResult (Some e) = reconcileError (Some e)
      \<and> stop (updationResult (Some e))
      \<and> err (updationResult (Some e)) = Some e)"
  by (simp add: updationResult_def result_defs Let_def Second_def)

theorem updationResult_conflict_requeues_witness:
  "IsConflict (Some (StatusError StatusReasonConflict))
   \<and> updationResult (Some (StatusError StatusReasonConflict))
       = \<lparr>Result = \<lparr>Requeue = False, RequeueAfter = 2000000000\<rparr>, err = None, stop = True\<rparr>
   \<and> \<not> IsConflict (Some (PlainError ''timeout''))
   \<and> updationResult (Some (PlainError ''timeout''))
       = \<lparr>Result = \<lparr>Requeue = False, RequeueAfter = 0\<rparr>,
          err = Some (PlainError ''timeout''), stop = True\<rparr>"
proof -
  have c: "IsConflict (Some (StatusError StatusReasonConflict))"
    by (simp add: IsConflict_def)
  have n: "\<not> IsConflict (Some (PlainError ''timeout''))"
    by (simp add: IsConflict_def)
  from c n updationResult_conflict_requeues [of "StatusError StatusReasonConflict"]
    updationResult_conflict_requeues [of "PlainError ''timeout''"]
  show ?thesis
    by (simp add: Second_def result_defs)
qed

text \<open>
  Claim C8: on an already-exists error \<open>creationResult\<close> returns the plain continue
  result, without error; it is a function of the error alone and calls nothing. On a nil
  error it returns stop without error, on any other error that error with \<open>stop\<close> set.
\<close>

theorem creationResult_cases:
  "(IsAlreadyExists (Some e) \<longrightarrow>
      creationResult (Some e) = next_result
      \<and> \<not> stop (creationResult (Some e))
      \<and> err (creationResult (Some e)) = None
      \<and> Result (creationResult (Some e)) = zero_Result)
   \<and> (creationResult None = end_result
      \<and> stop (creationResult None)
      \<and> err (creationResult None) = None)
   \<and> (\<not> IsAlreadyExists (Some e) \<longrightarrow>
      creationResult (Some e) = reconcileError (Some e)
      \<and> stop (creationResult (Some e))
      \<and> err (creationResult (Some e)) = Some e)"
  by (simp add: creationResult_def result_defs)

theorem creationResult_cases_witness:
  "IsAlreadyExists (Some (StatusError StatusReasonAlreadyExists))
   \<and> creationResult (Some (StatusError StatusReasonAlreadyExists))
       = \<lparr>Result = \<lparr>Requeue = False, RequeueAfter = 0\<rparr>, err = None, stop = False\<rparr>
   \<and> \<not> IsAlreadyExists (Some (StatusError (StatusReasonOther ''Forbidden'')))
   \<and> creationResult (Some (StatusError (StatusReasonOther ''Forbidden'')))
       = \<lparr>Result = \<lparr>Requeue = False, RequeueAfter = 0\<rparr>,
          err = Some (StatusError (StatusReasonOther ''Forbidden'')), stop = True\<rparr>"
proof -
  have c: "IsAlreadyExists (Some (StatusError StatusReasonAlreadyExists))"
    by (simp add: IsAlreadyExists_def)
  have n: "\<not> IsAlreadyExists (Some (StatusError (StatusReasonOther ''Forbidden'')))"
    by (simp add: IsAlreadyExists_def)
  from c n creationResult_cases [of "StatusError StatusReasonAlreadyExists"]
    creationResult_cases [of "StatusError (StatusReasonOther ''Forbidden'')"]
  show ?thesis
    by (simp add: result_defs)
qed

text \<open>
  A step that creates hands the error of its one Create call to \<open>creationResult\<close> and
  leaves the world as that call left it: an object that already exists is not written
  a second time.
\<close>

lemma reconcileNamespace_creates_once:
  assumes "Get_Namespace (nsClient r) \<lparr>KeyNamespace = [], KeyName = Namespace\<rparr> w = Inl e"
    and "IsNotFound (Some e)"
    and "Create (nsClient r) (NamespaceObj NewNamespace) w = (e', w')"
  shows "reconcileNamespace r w = Inr (creationResult e', r, w')"
  using assms by (simp add: reconcileNamespace_def)

lemma reconcileOperatorGroup_creates_once:
  assumes "Get_OperatorGroup (nsClient r)
      \<lparr>KeyNamespace = Namespace, KeyName = operatorGroupName\<rparr> w = Inl e"
    and "IsNotFound (Some e)"
    and "Create (nsClient r) (OperatorGroupObj NewOperatorGroup) w = (e', w')"
  shows "reconcileOperatorGroup r w = Inr (creationResult e', r, w')"
  using assms by (simp add: reconcileOperatorGroup_def)

lemma reconcileSubscription_creates_once:
  assumes "Get_Subscription (nsClient r)
      \<lparr>KeyNamespace = Namespace, KeyName = subscriptionName\<rparr> w = Inl e"
    and "IsNotFound (Some e)"
    and "Create (nsClient r) (SubscriptionObj NewSubscription) w = (e', w')"
  shows "reconcileSubscription r w = Inr (creationResult e', r, w')"
  using assms by (simp add: reconcileSubscription_def)

lemma reconcileGrafana_creates_once:
  assumes "Get_Grafana (nsClient r) \<lparr>KeyNamespace = Namespace, KeyName = grafanaName\<rparr> w = Inl e"
    and "IsNotFound (Some e)"
    and "Create (nsClient r) (GrafanaObj newGrafana) w = (e', w')"
  shows "reconcileGrafana r w = Inr (creationResult e', r, w')"
  using assms by (simp add: reconcileGrafana_def)

section \<open>The pipeline\<close>

lemma Reconcile_loop_continue:
  "stepsContinue fs r w = Some (r1, w1) \<Longrightarrow>
   Reconcile_loop (fs @ gs) r w = Reconcile_loop gs r1 w1"
proof (induction fs arbitrary: r w)
  case Nil
  then show ?case by simp
next
  case (Cons f fs)
  then show ?case
    by (auto split: sum.splits prod.splits if_splits)
qed

text \<open>
  Claim C5: \<open>Reconcile\<close> runs the steps in list order, each on the state the previous one
  left. At the first step whose result has \<open>stop\<close> set it returns that step's
  \<open>ctrl.Result\<close> and error, and no later step runs, whatever the later steps are. If
  every step returns with \<open>stop\<close> unset it returns the zero \<open>ctrl.Result\<close> and a nil error.
\<close>

theorem Reconcile_loop_in_order:
  "(stepsContinue fs r w = Some (r1, w1) \<and> f r1 w1 = Inr (res, r2, w2) \<and> stop res \<longrightarrow>
      Reconcile_loop (fs @ f # gs) r w = Inr ((Result res, err res), r2, w2))
   \<and> (stepsContinue fs r w = Some (r1, w1) \<longrightarrow>
      Reconcile_loop fs r w = Inr ((zero_Result, None), r1, w1))"
proof (intro conjI impI)
  assume a: "stepsContinue fs r w = Some (r1, w1) \<and> f r1 w1 = Inr (res, r2, w2) \<and> stop res"
  then have "Reconcile_loop (fs @ f # gs) r w = Reconcile_loop (f # gs) r1 w1"
    by (simp add: Reconcile_loop_continue)
  with a show "Reconcile_loop (fs @ f # gs) r w = Inr ((Result res, err res), r2, w2)"
    by (simp add: result_def)
next
  assume "stepsContinue fs r w = Some (r1, w1)"
  then have "Reconcile_loop (fs @ []) r w = Reconcile_loop [] r1 w1"
    by (rule Reconcile_loop_continue)
  then show "Reconcile_loop fs r w = Inr ((zero_Result, None), r1, w1)"
    by (simp add: result_def zero_reconcileResult_def)
qed

theorem Reconcile_loop_in_order_witness:
  "Reconcile newReconciler (storeOf [NamespaceObj activeNamespace])
     = Inr ((zero_Result, None), newReconciler,
         (storeOf [NamespaceObj activeNamespace, OperatorGroupObj NewOperatorGroup])
           \<lparr>calls := [CreateCall (OperatorGroupObj NewOperatorGroup)]\<rparr>)
   \<and> Reconcile_loop [reconcileNamespace] newReconciler (storeOf [NamespaceObj activeNamespace])
     = Inr ((zero_Result, None), newReconciler, storeOf [NamespaceObj activeNamespace])"
proof -
  let ?w = "storeOf [NamespaceObj activeNamespace]"
  let ?w' = "(storeOf [NamespaceObj activeNamespace, OperatorGroupObj NewOperatorGroup])
           \<lparr>calls := [CreateCall (OperatorGroupObj NewOperatorGroup)]\<rparr>"
  have a: "stepsContinue [reconcileNamespace] newReconciler ?w = Some (newReconciler, ?w)"
    by (simp add: reconcileNamespace_def store_defs scenario_defs Namespace_def result_defs)
  have b: "reconcileOperatorGroup newReconciler ?w = Inr (end_result, newReconciler, ?w')"
    by (simp add: reconcileOperatorGroup_def store_defs scenario_defs Namespace_def
        Let_def creationResult_def IsNotFound_iff)
  have c: "stop end_result"
    by (simp add: result_defs)
  have d: "Result end_result = zero_Result \<and> err end_result = None"
    by (simp add: result_defs)
  have e: "(reconcilers :: Store ReconcileFunc list) =
      [reconcileNamespace] @ reconcileOperatorGroup
        # [reconcileSubscription, approveInstallPlan, setGrafanaWatch, reconcileGrafana]"
    by (simp add: reconcilers_def)
  from a b c
    Reconcile_loop_in_order
      [of "[reconcileNamespace]" newReconciler ?w newReconciler ?w reconcileOperatorGroup
          end_result newReconciler ?w'
          "[reconcileSubscription, approveInstallPlan, setGrafanaWatch, reconcileGrafana]"]
  show ?thesis
    unfolding Reconcile_def e by (simp only: d simp_thms)
qed

section \<open>Install-plan approval\<close>

lemma approveInstallPlan_loop_find:
  "\<forall>p \<in> set plans. ClusterServiceVersionNames (ip_Spec p) \<noteq> [] \<Longrightarrow>
   approveInstallPlan_loop plans =
     (case find planMatches plans of
        None \<Rightarrow> Inr (Inr None)
      | Some p \<Rightarrow> if Approved (ip_Spec p) then Inr (Inl next_result) else Inr (Inr (Some p)))"
proof (induction plans)
  case Nil
  then show ?case by simp
next
  case (Cons p ps)
  then show ?case
    by (cases "ClusterServiceVersionNames (ip_Spec p)") (auto simp: planMatches_def)
qed

lemma approveInstallPlan_loop_panic:
  "approveInstallPlan_loop plans = Inl p \<Longrightarrow>
   p = IndexOutOfRange \<and> (\<exists>q \<in> set plans. ClusterServiceVersionNames (ip_Spec q) = [])"
proof (induction plans)
  case Nil
  then show ?case by simp
next
  case (Cons q qs)
  then show ?case
    by (cases "ClusterServiceVersionNames (ip_Spec q)") (auto split: if_splits)
qed

lemma approveInstallPlan_panic:
  assumes "approveInstallPlan r w = Inl p"
  shows "p = IndexOutOfRange \<and>
    (\<exists>plans. List_InstallPlans (nsClient r) Namespace w = Inr plans
       \<and> (\<exists>q \<in> set plans. ClusterServiceVersionNames (ip_Spec q) = []))"
proof (cases "List_InstallPlans (nsClient r) Namespace w")
  case (Inl e)
  with assms show ?thesis by (simp add: approveInstallPlan_def)
next
  case (Inr plans)
  with assms have "approveInstallPlan_loop plans = Inl p"
    by (auto simp: approveInstallPlan_def Let_def
        split: if_splits sum.splits option.splits prod.splits)
  with Inr show ?thesis
    using approveInstallPlan_loop_panic by blast
qed

text \<open>
  Claim C1, as the code has it. Provided every listed plan has at least one CSV name,
  \<open>approveInstallPlan\<close> looks at the first plan whose first CSV name is the desired CSV
  and whose bundle lookups are not empty. If that plan is not yet approved, the step sets
  \<open>Spec.Approved\<close> on it and issues exactly one update, for that plan; this is the only
  write, so every other plan is left as it was. If that plan is already approved the step
  writes nothing and continues. If no plan satisfies the match condition the step writes
  nothing and stops without error.
\<close>

theorem approveInstallPlan_first_match:
  assumes "List_InstallPlans (nsClient r) Namespace w = Inr plans"
    and "\<forall>p \<in> set plans. ClusterServiceVersionNames (ip_Spec p) \<noteq> []"
  shows "approveInstallPlan r w =
     (case find planMatches plans of
        None \<Rightarrow> Inr (end_result, r, w)
      | Some p \<Rightarrow>
          if Approved (ip_Spec p) then Inr (next_result, r, w)
          else (case Update (nsClient r) (InstallPlanObj (approve p)) w of
                  (e, w') \<Rightarrow> Inr (updationResult e, r, w')))"
proof (cases "find planMatches plans")
  case None
  with assms show ?thesis
    by (simp add: approveInstallPlan_def approveInstallPlan_loop_find)
next
  case (Some p)
  then have "plans \<noteq> []" by auto
  with Some assms show ?thesis
    by (simp add: approveInstallPlan_def approveInstallPlan_loop_find approve_def Let_def)
qed

theorem approveInstallPlan_first_match_witness:
  "approveInstallPlan newReconciler
     (storeOf [InstallPlanObj planOther, InstallPlanObj planGrafana,
               InstallPlanObj planGrafanaLater])
   = Inr (next_result, newReconciler,
       (storeOf [InstallPlanObj planOther, InstallPlanObj (approve planGrafana),
                 InstallPlanObj planGrafanaLater])
        \<lparr>calls := [UpdateCall (InstallPlanObj (approve planGrafana))]\<rparr>)
   \<and> approveInstallPlan newReconciler (storeOf [InstallPlanObj planOther])
       = Inr (end_result, newReconciler, storeOf [InstallPlanObj planOther])"
proof -
  let ?w = "storeOf [InstallPlanObj planOther, InstallPlanObj planGrafana,
                     InstallPlanObj planGrafanaLater]"
  let ?plans = "[planOther, planGrafana, planGrafanaLater]"
  have listed: "List_InstallPlans (nsClient newReconciler) Namespace ?w = Inr ?plans"
    by (simp add: store_defs object_defs)
  have names: "\<forall>p \<in> set ?plans. ClusterServiceVersionNames (ip_Spec p) \<noteq> []"
    by (simp add: object_defs)
  have found: "find planMatches ?plans = Some planGrafana"
    by (simp add: planMatches_def object_defs)
  have upd: "Update (nsClient newReconciler) (InstallPlanObj (approve planGrafana)) ?w
    = (None, (storeOf [InstallPlanObj planOther, InstallPlanObj (approve planGrafana),
                 InstallPlanObj planGrafanaLater])
        \<lparr>calls := [UpdateCall (InstallPlanObj (approve planGrafana))]\<rparr>)"
    by (simp add: store_defs object_defs approve_def Let_def)
  have unapproved: "\<not> Approved (ip_Spec planGrafana)"
    by (simp add: object_defs)
  let ?w1 = "storeOf [InstallPlanObj planOther]"
  have listed1: "List_InstallPlans (nsClient newReconciler) Namespace ?w1 = Inr [planOther]"
    by (simp add: store_defs object_defs)
  have names1: "\<forall>p \<in> set [planOther]. ClusterServiceVersionNames (ip_Spec p) \<noteq> []"
    by (simp add: object_defs)
  have found1: "find planMatches [planOther] = None"
    by (simp add: planMatches_def object_defs)
  from approveInstallPlan_first_match [OF listed names]
    approveInstallPlan_first_match [OF listed1 names1]
  show ?thesis
    by (simp only: found found1 upd unapproved option.case if_False prod.case updationResult_def
        simp_thms if_True)
qed

text \<open>
  The claim as worded selects by membership in the list of CSV names and among the
  unapproved plans only. A plan that lists the desired CSV second is selected by that
  wording but passed over by the step; and behind an approved matching plan a second,
  unapproved one is selected by that wording but never reached by the step.
\<close>

theorem approveInstallPlan_selection_counterexample:
  "find statedMatch [planBundled] = Some planBundled
   \<and> approveInstallPlan newReconciler (storeOf [InstallPlanObj planBundled])
       = Inr (end_result, newReconciler, storeOf [InstallPlanObj planBundled])
   \<and> find statedMatch [approve planGrafana, planGrafanaLater] = Some planGrafanaLater
   \<and> approveInstallPlan newReconciler
         (storeOf [InstallPlanObj (approve planGrafana), InstallPlanObj planGrafanaLater])
       = Inr (next_result, newReconciler,
           storeOf [InstallPlanObj (approve planGrafana), InstallPlanObj planGrafanaLater])"
  by (simp add: approveInstallPlan_def store_defs object_defs approve_def statedMatch_def)

text \<open>
  Claim C2, as the code has it. When the loop leaves an unapproved matching plan and the
  update of the approved plan succeeds, the step returns the plain continue result:
  \<open>stop\<close> unset, no error, no requeue. The pipeline does not halt at this step; the
  steps after it run in the same invocation, on the world the update left.
\<close>

theorem approveInstallPlan_approved_continues:
  assumes "List_InstallPlans (nsClient r) Namespace w = Inr plans"
    and "approveInstallPlan_loop plans = Inr (Inr (Some p))"
    and "Update (nsClient r) (InstallPlanObj (approve p)) w = (None, w')"
  shows "approveInstallPlan r w = Inr (next_result, r, w')
    \<and> \<not> stop next_result \<and> err next_result = None \<and> Result next_result = zero_Result
    \<and> Reconcile_loop (approveInstallPlan # later) r w = Reconcile_loop later r w'"
proof -
  from assms(2) have "plans \<noteq> []" by auto
  with assms have a: "approveInstallPlan r w = Inr (next_result, r, w')"
    by (simp add: approveInstallPlan_def approve_def Let_def updationResult_def)
  then show ?thesis
    by (simp add: result_defs)
qed

lemma grafanaPlan_update:
  "Update (nsClient newReconciler) (InstallPlanObj (approve planGrafana))
     (storeOf [InstallPlanObj planGrafana])
   = (None, (storeOf [InstallPlanObj (approve planGrafana)])
        \<lparr>calls := [UpdateCall (InstallPlanObj (approve planGrafana))]\<rparr>)"
  by (simp add: store_defs object_defs approve_def Let_def)

lemma later_steps_run:
  "Reconcile_loop [setGrafanaWatch, reconcileGrafana] newReconciler
     ((storeOf [InstallPlanObj (approve planGrafana)])
        \<lparr>calls := [UpdateCall (InstallPlanObj (approve planGrafana))]\<rparr>)
   = Inr ((zero_Result, None),
       newReconciler\<lparr>grafanaWatchEstablished := True\<rparr>,
       (storeOf [InstallPlanObj (approve planGrafana), GrafanaObj newGrafana])
        \<lparr>watches := [KindGrafana],
         calls := [UpdateCall (InstallPlanObj (approve planGrafana)),
                   CreateCall (GrafanaObj newGrafana)]\<rparr>)"
  by (simp add: setGrafanaWatch_def reconcileGrafana_def store_defs Let_def result_def
      creationResult_def result_defs IsNotFound_iff
      object_defs approve_def newGrafana_def grafanaName_def)

theorem approveInstallPlan_approved_continues_witness:
  "approveInstallPlan newReconciler (storeOf [InstallPlanObj planGrafana])
     = Inr (next_result, newReconciler,
         (storeOf [InstallPlanObj (approve planGrafana)])
           \<lparr>calls := [UpdateCall (InstallPlanObj (approve planGrafana))]\<rparr>)
   \<and> Reconcile_loop [approveInstallPlan, setGrafanaWatch, reconcileGrafana] newReconciler
       (storeOf [InstallPlanObj planGrafana])
     = Inr ((zero_Result, None),
         newReconciler\<lparr>grafanaWatchEstablished := True\<rparr>,
         (storeOf [InstallPlanObj (approve planGrafana), GrafanaObj newGrafana])
          \<lparr>watches := [KindGrafana],
           calls := [UpdateCall (InstallPlanObj (approve planGrafana)),
                     CreateCall (GrafanaObj newGrafana)]\<rparr>)"
proof -
  have listed: "List_InstallPlans (nsClient newReconciler) Namespace
      (storeOf [InstallPlanObj planGrafana]) = Inr [planGrafana]"
    by (simp add: store_defs object_defs)
  have loop: "approveInstallPlan_loop [planGrafana] = Inr (Inr (Some planGrafana))"
    by (simp add: object_defs)
  from approveInstallPlan_approved_continues
         [OF listed loop grafanaPlan_update, of "[setGrafanaWatch, reconcileGrafana]"]
  show ?thesis
    by (simp only: later_steps_run simp_thms)
qed

text \<open>
  With one unapproved matching plan in the store the update succeeds, the result has
  \<open>stop\<close> unset, and the run goes on to register the Grafana watch.
\<close>

theorem approveInstallPlan_halts_counterexample:
  "approveInstallPlan newReconciler (storeOf [InstallPlanObj planGrafana])
     = Inr (next_result, newReconciler,
         (storeOf [InstallPlanObj (approve planGrafana)])
           \<lparr>calls := [UpdateCall (InstallPlanObj (approve planGrafana))]\<rparr>)
   \<and> \<not> stop next_result
   \<and> map_sum id (\<lambda>(out, r, w). watches w)
       (Reconcile_loop [approveInstallPlan, setGrafanaWatch, reconcileGrafana] newReconciler
          (storeOf [InstallPlanObj planGrafana]))
     = Inr [KindGrafana]"
  by (simp add: approveInstallPlan_def setGrafanaWatch_def reconcileGrafana_def store_defs
      Let_def result_def creationResult_def updationResult_def result_defs IsNotFound_iff
      object_defs approve_def newGrafana_def grafanaName_def)

text \<open>
  Claim C10: \<open>approveInstallPlan\<close> indexes \<open>ClusterServiceVersionNames[0]\<close> unguarded.
  If every listed plan has a non-empty list of CSV names the step returns; and on a store
  that lists a plan with no CSV name the step panics with an index out of range.
\<close>

theorem approveInstallPlan_indexing:
  "(List_InstallPlans (nsClient r) Namespace w = Inr plans
      \<and> (\<forall>q \<in> set plans. ClusterServiceVersionNames (ip_Spec q) \<noteq> []) \<longrightarrow>
    (\<exists>out. approveInstallPlan r w = Inr out))
   \<and> ClusterServiceVersionNames (ip_Spec planNoNames) = []
   \<and> approveInstallPlan newReconciler
        (storeOf [InstallPlanObj planOther, InstallPlanObj planNoNames])
      = Inl IndexOutOfRange"
proof (intro conjI impI)
  assume a: "List_InstallPlans (nsClient r) Namespace w = Inr plans
      \<and> (\<forall>q \<in> set plans. ClusterServiceVersionNames (ip_Spec q) \<noteq> [])"
  show "\<exists>out. approveInstallPlan r w = Inr out"
  proof (cases "approveInstallPlan r w")
    case (Inl p)
    from approveInstallPlan_panic [OF this] a show ?thesis by auto
  next
    case (Inr out)
    then show ?thesis by blast
  qed
qed (simp_all add: approveInstallPlan_def store_defs object_defs)

theorem approveInstallPlan_indexing_witness:
  "ClusterServiceVersionNames (ip_Spec planOther) \<noteq> []
   \<and> ClusterServiceVersionNames (ip_Spec planGrafana) \<noteq> []
   \<and> (\<exists>out. approveInstallPlan newReconciler
               (storeOf [InstallPlanObj planOther, InstallPlanObj planGrafana]) = Inr out)"
proof -
  have listed: "List_InstallPlans (nsClient newReconciler) Namespace
      (storeOf [InstallPlanObj planOther, InstallPlanObj planGrafana])
      = Inr [planOther, planGrafana]"
    by (simp add: store_defs object_defs)
  have names: "\<forall>q \<in> set [planOther, planGrafana]. ClusterServiceVersionNames (ip_Spec q) \<noteq> []"
    by (simp add: object_defs)
  from listed names approveInstallPlan_indexing
         [of newReconciler "storeOf [InstallPlanObj planOther, InstallPlanObj planGrafana]"
             "[planOther, planGrafana]"]
  have "\<exists>out. approveInstallPlan newReconciler
      (storeOf [InstallPlanObj planOther, InstallPlanObj planGrafana]) = Inr out"
    by blast
  with names show ?thesis by simp
qed

text \<open>
  The condition is sufficient, not necessary: a plan with no CSV name that stands behind
  an approved matching plan is never indexed.
\<close>

lemma approveInstallPlan_no_names_unreached:
  "approveInstallPlan newReconciler
     (storeOf [InstallPlanObj (approve planGrafana), InstallPlanObj planNoNames])
   = Inr (next_result, newReconciler,
       storeOf [InstallPlanObj (approve planGrafana), InstallPlanObj planNoNames])"
  by (simp add: approveInstallPlan_def store_defs object_defs approve_def)

section \<open>The subscription\<close>

text \<open>
  On a subscription whose \<open>StartingCSV\<close> is not the desired one, with both deletions
  succeeding, the object handed to Create is the subscription that was read.
\<close>

lemma reconcileSubscription_recreates_observed:
  assumes "Get_Subscription (nsClient r) \<lparr>KeyNamespace = Namespace, KeyName = subscriptionName\<rparr> w
      = Inr subscription"
    and "sub_Spec subscription = Some spec"
    and "StartingCSV spec \<noteq> grafanaCSV"
    and "Delete (nsClient r) (SubscriptionObj subscription) w = (None, w1)"
    and "Delete (nsClient r)
           (ClusterServiceVersionObj
             \<lparr>csv_TypeMeta = \<lparr>APIVersion = ''operators.coreos.com/v1alpha1'',
                               Kind = ''ClusterServiceVersion''\<rparr>,
              csv_ObjectMeta = \<lparr>Name = InstalledCSV (sub_Status subscription),
                                 ObjNamespace = Namespace, Labels = commonLabels\<rparr>\<rparr>) w1
         = (None, w2)"
    and "Create (nsClient r) (SubscriptionObj subscription) w2 = (e, w3)"
  shows "reconcileSubscription r w = Inr (creationResult e, r, w3)"
  using assms by (simp add: reconcileSubscription_def NewSubscription_def Let_def)

text \<open>
  Claim C3 says that a subscription with a stale \<open>StartingCSV\<close> is deleted together with
  its installed CSV and then created with the desired \<open>StartingCSV\<close>. On a store holding
  a subscription at \<open>grafana-operator.v3.10.3\<close> and its CSV, the step issues the two
  deletions and then creates the subscription it had read: the store ends with a
  subscription whose \<open>StartingCSV\<close> is still \<open>grafana-operator.v3.10.3\<close>, not the
  \<open>grafana-operator.v4.1.0\<close> of \<open>NewSubscription\<close>.
\<close>

theorem reconcileSubscription_recreates_stale:
  "reconcileSubscription newReconciler
     (storeOf [SubscriptionObj staleSubscription, ClusterServiceVersionObj installedCSV])
   = Inr (end_result, newReconciler,
       (storeOf [SubscriptionObj staleSubscription])
         \<lparr>calls := [DeleteCall (SubscriptionObj staleSubscription),
                    DeleteCall (ClusterServiceVersionObj installedCSV),
                    CreateCall (SubscriptionObj staleSubscription)]\<rparr>)
   \<and> map_option StartingCSV (sub_Spec staleSubscription) = Some ''grafana-operator.v3.10.3''
   \<and> map_option StartingCSV (sub_Spec NewSubscription) = Some ''grafana-operator.v4.1.0''"
  by (simp add: reconcileSubscription_def store_defs scenario_defs Let_def
      creationResult_def Namespace_def grafanaCSV_def managedBy_def operatorName_def)

section \<open>The watch gate\<close>

lemma reconcileNamespace_reconciler:
  "reconcileNamespace r w = Inr (res, r', w') \<Longrightarrow> r' = r"
  by (auto simp: reconcileNamespace_def Let_def split: sum.splits if_splits prod.splits)

lemma reconcileOperatorGroup_reconciler:
  "reconcileOperatorGroup r w = Inr (res, r', w') \<Longrightarrow> r' = r"
  by (auto simp: reconcileOperatorGroup_def Let_def split: sum.splits if_splits prod.splits)

lemma reconcileSubscription_reconciler:
  "reconcileSubscription r w = Inr (res, r', w') \<Longrightarrow> r' = r"
  by (auto simp: reconcileSubscription_def Let_def
      split: sum.splits if_splits prod.splits option.splits)

lemma approveInstallPlan_reconciler:
  "approveInstallPlan r w = Inr (res, r', w') \<Longrightarrow> r' = r"
  by (auto simp: approveInstallPlan_def Let_def
      split: sum.splits if_splits prod.splits option.splits)

lemma reconcileGrafana_reconciler:
  "reconcileGrafana r w = Inr (res, r', w') \<Longrightarrow> r' = r"
  by (auto simp: reconcileGrafana_def Let_def split: sum.splits if_splits prod.splits)

lemma setGrafanaWatch_flag:
  assumes "setGrafanaWatch r w = Inr (res, r', w')"
  shows "(grafanaWatchEstablished r \<longrightarrow> grafanaWatchEstablished r')
    \<and> (grafanaWatchEstablished r' \<and> \<not> grafanaWatchEstablished r \<longrightarrow>
         List_GrafanaDataSources (nsClient r) ''default'' w = None
         \<and> Watch (controller r) KindGrafana w = (None, w'))"
  using assms
  by (auto simp: setGrafanaWatch_def split: if_splits option.splits prod.splits)

lemma steps_keep_flag:
  assumes "f \<in> set reconcilers" and "f r w = Inr (res, r', w')"
  shows "(grafanaWatchEstablished r \<longrightarrow> grafanaWatchEstablished r')
    \<and> (grafanaWatchEstablished r' \<and> \<not> grafanaWatchEstablished r \<longrightarrow>
         f = setGrafanaWatch
         \<and> List_GrafanaDataSources (nsClient r) ''default'' w = None
         \<and> Watch (controller r) KindGrafana w = (None, w'))"
proof -
  from assms(1) consider
      "f = reconcileNamespace" | "f = reconcileOperatorGroup" | "f = reconcileSubscription"
    | "f = approveInstallPlan" | "f = setGrafanaWatch" | "f = reconcileGrafana"
    by (auto simp: reconcilers_def)
  then show ?thesis
  proof cases
    case 1
    with assms(2) have "r' = r" by (simp add: reconcileNamespace_reconciler)
    then show ?thesis by simp
  next
    case 2
    with assms(2) have "r' = r" by (simp add: reconcileOperatorGroup_reconciler)
    then show ?thesis by simp
  next
    case 3
    with assms(2) have "r' = r" by (simp add: reconcileSubscription_reconciler)
    then show ?thesis by simp
  next
    case 4
    with assms(2) have "r' = r" by (simp add: approveInstallPlan_reconciler)
    then show ?thesis by simp
  next
    case 5
    with assms(2) setGrafanaWatch_flag [of r w res r' w'] show ?thesis by simp
  next
    case 6
    with assms(2) have "r' = r" by (simp add: reconcileGrafana_reconciler)
    then show ?thesis by simp
  qed
qed

lemma Reconcile_loop_flag:
  "\<forall>f \<in> set fs. \<forall>r w res r' w'. f r w = Inr (res, r', w') \<longrightarrow>
      grafanaWatchEstablished r \<longrightarrow> grafanaWatchEstablished r' \<Longrightarrow>
   Reconcile_loop fs r w = Inr (out, r', w') \<Longrightarrow>
   grafanaWatchEstablished r \<Longrightarrow> grafanaWatchEstablished r'"
proof (induction fs arbitrary: r w)
  case Nil
  then show ?case by simp
next
  case (Cons f fs)
  show ?case
  proof (cases "f r w")
    case (Inl p)
    with Cons.prems(2) show ?thesis by simp
  next
    case (Inr x)
    obtain res r1 w1 where x: "x = (res, r1, w1)" by (cases x) auto
    with Inr Cons.prems have f1: "grafanaWatchEstablished r1"
      by (meson list.set_intros(1))
    show ?thesis
    proof (cases "stop res")
      case True
      with Inr x Cons.prems(2) f1 show ?thesis by simp
    next
      case False
      with Inr x Cons.prems(2) have "Reconcile_loop fs r1 w1 = Inr (out, r', w')" by simp
      with Cons.IH [of r1 w1] Cons.prems(1) f1 show ?thesis by simp
    qed
  qed
qed

text \<open>
  Claim C9: with the flag set, \<open>setGrafanaWatch\<close> returns continue and touches nothing.
  With the flag unset: a failed probe gives a requeue after ten seconds with a nil error;
  a failed watch registration gives stop with that error, the flag still unset; a
  successful registration sets the flag and continues. No step of the pipeline, and so
  no run of \<open>Reconcile\<close>, ever unsets the flag, and the only step after which an unset
  flag is set is \<open>setGrafanaWatch\<close> with a probe and a registration that both succeeded.
\<close>

theorem setGrafanaWatch_gate:
  "(grafanaWatchEstablished r \<longrightarrow> setGrafanaWatch r w = Inr (next_result, r, w))
   \<and> (\<not> grafanaWatchEstablished r
        \<and> List_GrafanaDataSources (nsClient r) ''default'' w = Some e \<longrightarrow>
      setGrafanaWatch r w
        = Inr (\<lparr>Result = \<lparr>Requeue = False, RequeueAfter = 10 * Second\<rparr>,
                 err = None, stop = True\<rparr>, r, w))
   \<and> (\<not> grafanaWatchEstablished r
        \<and> List_GrafanaDataSources (nsClient r) ''default'' w = None
        \<and> Watch (controller r) KindGrafana w = (Some e, w1) \<longrightarrow>
      setGrafanaWatch r w = Inr (reconcileError (Some e), r, w1)
      \<and> stop (reconcileError (Some e)) \<and> err (reconcileError (Some e)) = Some e)
   \<and> (\<not> grafanaWatchEstablished r
        \<and> List_GrafanaDataSources (nsClient r) ''default'' w = None
        \<and> Watch (controller r) KindGrafana w = (None, w1) \<longrightarrow>
      setGrafanaWatch r w = Inr (next_result, r\<lparr>grafanaWatchEstablished := True\<rparr>, w1))
   \<and> (\<forall>f \<in> set reconcilers. \<forall>res r' w'. f r w = Inr (res, r', w') \<longrightarrow>
        (grafanaWatchEstablished r \<longrightarrow> grafanaWatchEstablished r')
        \<and> (grafanaWatchEstablished r' \<and> \<not> grafanaWatchEstablished r \<longrightarrow>
             f = setGrafanaWatch
             \<and> List_GrafanaDataSources (nsClient r) ''default'' w = None
             \<and> Watch (controller r) KindGrafana w = (None, w')))
   \<and> (\<forall>out r' w'. Reconcile r w = Inr (out, r', w') \<longrightarrow>
        grafanaWatchEstablished r \<longrightarrow> grafanaWatchEstablished r')"
proof (intro conjI)
  show "\<forall>f \<in> set reconcilers. \<forall>res r' w'. f r w = Inr (res, r', w') \<longrightarrow>
        (grafanaWatchEstablished r \<longrightarrow> grafanaWatchEstablished r')
        \<and> (grafanaWatchEstablished r' \<and> \<not> grafanaWatchEstablished r \<longrightarrow>
             f = setGrafanaWatch
             \<and> List_GrafanaDataSources (nsClient r) ''default'' w = None
             \<and> Watch (controller r) KindGrafana w = (None, w'))"
    by (intro ballI allI impI) (rule steps_keep_flag)
  show "\<forall>out r' w'. Reconcile r w = Inr (out, r', w') \<longrightarrow>
        grafanaWatchEstablished r \<longrightarrow> grafanaWatchEstablished r'"
  proof (intro allI impI)
    fix out r' w'
    assume a: "Reconcile r w = Inr (out, r', w')" and b: "grafanaWatchEstablished r"
    have "\<forall>f \<in> set reconcilers. \<forall>r w res r' w'. f r w = Inr (res, r', w') \<longrightarrow>
        grafanaWatchEstablished r \<longrightarrow> grafanaWatchEstablished (r' :: 'a reconciler)"
      using steps_keep_flag by (intro ballI allI impI) fast
    from Reconcile_loop_flag [OF this] a b show "grafanaWatchEstablished r'"
      by (simp add: Reconcile_def)
  qed
qed (simp_all add: setGrafanaWatch_def result_defs Let_def Second_def)

theorem setGrafanaWatch_gate_witness:
  "setGrafanaWatch (newReconciler\<lparr>grafanaWatchEstablished := True\<rparr>) emptyStore
     = Inr (next_result, newReconciler\<lparr>grafanaWatchEstablished := True\<rparr>, emptyStore)
   \<and> setGrafanaWatch newReconciler (emptyStore\<lparr>dataSourceKindServed := False\<rparr>)
     = Inr (\<lparr>Result = \<lparr>Requeue = False, RequeueAfter = 10000000000\<rparr>, err = None, stop = True\<rparr>,
            newReconciler, emptyStore\<lparr>dataSourceKindServed := False\<rparr>)
   \<and> setGrafanaWatch newReconciler (emptyStore\<lparr>watchError := Some (PlainError ''no informer'')\<rparr>)
     = Inr (reconcileError (Some (PlainError ''no informer'')),
            newReconciler, emptyStore\<lparr>watchError := Some (PlainError ''no informer'')\<rparr>)
   \<and> setGrafanaWatch newReconciler emptyStore
     = Inr (next_result, newReconciler\<lparr>grafanaWatchEstablished := True\<rparr>,
            emptyStore\<lparr>watches := [KindGrafana]\<rparr>)"
proof -
  let ?established = "newReconciler\<lparr>grafanaWatchEstablished := True\<rparr>"
  let ?noKind = "emptyStore\<lparr>dataSourceKindServed := False\<rparr>"
  let ?noWatch = "emptyStore\<lparr>watchError := Some (PlainError ''no informer'')\<rparr>"
  let ?e = "PlainError ''no matches for kind GrafanaDataSource''"
  have a: "grafanaWatchEstablished ?established"
    by simp
  have b: "\<not> grafanaWatchEstablished newReconciler
      \<and> List_GrafanaDataSources (nsClient newReconciler) ''default'' ?noKind = Some ?e"
    by (simp add: store_defs)
  have c: "\<not> grafanaWatchEstablished newReconciler
      \<and> List_GrafanaDataSources (nsClient newReconciler) ''default'' ?noWatch = None
      \<and> Watch (controller newReconciler) KindGrafana ?noWatch
          = (Some (PlainError ''no informer''), ?noWatch)"
    by (simp add: store_defs)
  have d: "\<not> grafanaWatchEstablished newReconciler
      \<and> List_GrafanaDataSources (nsClient newReconciler) ''default'' emptyStore = None
      \<and> Watch (controller newReconciler) KindGrafana emptyStore
          = (None, emptyStore\<lparr>watches := [KindGrafana]\<rparr>)"
    by (simp add: store_defs)
  from a setGrafanaWatch_gate [of ?established emptyStore]
  have 1: "setGrafanaWatch ?established emptyStore = Inr (next_result, ?established, emptyStore)"
    by blast
  from b setGrafanaWatch_gate [of newReconciler ?noKind ?e]
  have 2: "setGrafanaWatch newReconciler ?noKind
     = Inr (\<lparr>Result = \<lparr>Requeue = False, RequeueAfter = 10 * Second\<rparr>, err = None, stop = True\<rparr>,
            newReconciler, ?noKind)"
    by blast
  from c setGrafanaWatch_gate [of newReconciler ?noWatch "PlainError ''no informer''" ?noWatch]
  have 3: "setGrafanaWatch newReconciler ?noWatch
     = Inr (reconcileError (Some (PlainError ''no informer'')), newReconciler, ?noWatch)"
    by blast
  from d setGrafanaWatch_gate [of newReconciler emptyStore _ "emptyStore\<lparr>watches := [KindGrafana]\<rparr>"]
  have 4: "setGrafanaWatch newReconciler emptyStore
     = Inr (next_result, ?established, emptyStore\<lparr>watches := [KindGrafana]\<rparr>)"
    by blast
  from 1 2 3 4 show ?thesis
    by (simp add: Second_def)
qed

section \<open>Properties of the config-map digest\<close>

lemma sum32a_Write_append:
  "sum32a_Write h (a @ b) = sum32a_Write (sum32a_Write h a) b"
  by (induction a arbitrary: h) simp_all

lemma computeConfigMapHash_loop_writes:
  "computeConfigMapHash_loop data h keys =
     sum32a_Write h
       (concat (map (\<lambda>k. k @ hashSeparator @ map_index data k @ hashSeparator) keys))"
  by (induction keys arbitrary: h) (simp_all add: sum32a_Write_append Let_def)

lemma computeConfigMapHash_written:
  "computeConfigMapHash (Some c) =
     Inr (Sprintf_x (sum32a_Sum (sum32a_Write New32a (writtenBytes (Data c)))))"
  by (simp add: computeConfigMapHash_def writtenBytes_def computeConfigMapHash_loop_writes)

lemma sorted_keys_unique:
  fixes d1 d2 :: "(string \<times> string) list"
  assumes "distinct (map fst d1)" "distinct (map fst d2)" "set d1 = set d2"
  shows "sort (map fst d1) = sort (map fst d2)"
proof -
  from assms(3) have "set (map fst d1) = set (map fst d2)" by simp
  with assms(1,2) show ?thesis
    by (intro sorted_distinct_set_unique) simp_all
qed

lemma writtenBytes_order:
  assumes "distinct (map fst d1)" "distinct (map fst d2)" "set d1 = set d2"
  shows "writtenBytes d1 = writtenBytes d2"
proof -
  from assms have "map_of d1 = map_of d2"
    by (simp add: map_of_inject_set)
  then have "map_index d1 = map_index d2"
    by (intro ext) (simp add: map_index_def)
  with sorted_keys_unique [OF assms] show ?thesis
    by (simp add: writtenBytes_def)
qed

lemma setValue_Nil: "setValue [] k v = []"
  by (simp add: setValue_def)

lemma setValue_Cons:
  "setValue ((a, b) # data) k v = (a, if a = k then v else b) # setValue data k v"
  by (simp add: setValue_def)

lemma keys_setValue: "map fst (setValue data k v) = map fst data"
  by (induction data) (auto simp: setValue_Nil setValue_Cons)

lemma map_of_setValue:
  "map_of (setValue data k v) k' =
     (if k' = k then map_option (\<lambda>_. v) (map_of data k) else map_of data k')"
  by (induction data) (auto simp: setValue_Nil setValue_Cons)

lemma map_index_setValue:
  assumes "k \<in> fst ` set data"
  shows "map_index (setValue data k v) k' = (if k' = k then v else map_index data k')"
proof -
  from assms obtain v0 where "map_of data k = Some v0"
    by (metis domD dom_map_of_conv_image_fst)
  then show ?thesis
    by (simp add: map_index_def map_of_setValue)
qed

lemma writtenBytes_setValue:
  assumes "distinct (map fst data)" and "k \<in> fst ` set data" and "v \<noteq> map_index data k"
  shows "writtenBytes (setValue data k v) \<noteq> writtenBytes data"
proof -
  let ?ks = "sort (map fst data)"
  let ?f = "\<lambda>d k. k @ hashSeparator @ map_index d k @ hashSeparator"
  from assms(2) have "k \<in> set ?ks" by simp
  then obtain pre post where ks: "?ks = pre @ k # post"
    by (meson split_list)
  from assms(1) have "distinct ?ks" by simp
  with ks have notin: "k \<notin> set pre" "k \<notin> set post" by auto
  have same: "?f (setValue data k v) x = ?f data x" if "x \<noteq> k" for x
    using that assms(2) by (simp add: map_index_setValue)
  have pre: "map (?f (setValue data k v)) pre = map (?f data) pre"
    using notin(1) by (intro map_cong refl same) auto
  have post: "map (?f (setValue data k v)) post = map (?f data) post"
    using notin(2) by (intro map_cong refl same) auto
  have mid: "map_index (setValue data k v) k = v"
    using assms(2) by (simp add: map_index_setValue)
  have "writtenBytes (setValue data k v) =
      concat (map (?f data) pre) @ k @ hashSeparator @ v @ hashSeparator
        @ concat (map (?f data) post)"
    unfolding writtenBytes_def keys_setValue ks
    by (simp only: map_append list.map concat_append concat.simps pre post mid append_assoc)
  moreover have "writtenBytes data =
      concat (map (?f data) pre) @ k @ hashSeparator @ map_index data k @ hashSeparator
        @ concat (map (?f data) post)"
    unfolding writtenBytes_def ks
    by (simp only: map_append list.map concat_append concat.simps append_assoc)
  ultimately show ?thesis
    using assms(3) by simp
qed

text \<open>The hex rendering of the hash state loses nothing.\<close>

lemma hexDigit_inj_aux:
  "\<forall>a \<in> set [0..<16]. \<forall>b \<in> set [0..<16]. hexDigit a = hexDigit b \<longrightarrow> a = b"
  by code_simp

lemma hexDigit_inj: "a < 16 \<Longrightarrow> b < 16 \<Longrightarrow> hexDigit a = hexDigit b \<Longrightarrow> a = b"
  using hexDigit_inj_aux by simp

lemma hexByte_inj:
  assumes "hexByte x = hexByte y"
  shows "x = y"
proof -
  have hi: "unat (drop_bit 4 w) < 16" for w :: "8 word"
  proof -
    have "unat (drop_bit 4 w) = unat w div 16"
      by (simp add: drop_bit_eq_div unat_div)
    moreover have "unat w < 256"
      using unsigned_less [of w] by simp
    ultimately show ?thesis by simp
  qed
  have lo: "unat (w AND 15) < 16" for w :: "8 word"
  proof -
    have "w AND 15 = take_bit 4 w"
      by (simp add: take_bit_eq_mask mask_eq_exp_minus_1)
    then have "unat (w AND 15) = unat w mod 16"
      by (simp add: take_bit_eq_mod unat_mod)
    then show ?thesis by simp
  qed
  from assms have "hexDigit (unat (drop_bit 4 x)) = hexDigit (unat (drop_bit 4 y))"
    and "hexDigit (unat (x AND 15)) = hexDigit (unat (y AND 15))"
    by (simp_all add: hexByte_def)
  with hi lo have a: "drop_bit 4 x = drop_bit 4 y" and b: "x AND 15 = y AND 15"
    by (auto dest!: hexDigit_inj simp: word_unat_eq_iff)
  have "w = push_bit 4 (drop_bit 4 w) + (w AND 15)" for w :: "8 word"
  proof -
    have "w AND 15 = take_bit 4 w"
      by (simp add: take_bit_eq_mask mask_eq_exp_minus_1)
    then show ?thesis
      by (simp add: bits_ident)
  qed
  from this [of x] this [of y] a b show ?thesis by simp
qed

lemma sum32a_Sum_inj:
  assumes "sum32a_Sum a = sum32a_Sum b"
  shows "a = b"
proof (rule bit_word_eqI)
  fix n assume n: "n < LENGTH(32)"
  from assms have e:
    "(ucast (drop_bit 24 a) :: 8 word) = ucast (drop_bit 24 b)"
    "(ucast (drop_bit 16 a) :: 8 word) = ucast (drop_bit 16 b)"
    "(ucast (drop_bit 8 a) :: 8 word) = ucast (drop_bit 8 b)"
    "(ucast a :: 8 word) = ucast b"
    by (simp_all add: sum32a_Sum_def)
  have k: "bit w (m + j) = bit (ucast (drop_bit m w) :: 8 word) j" if "j < 8" for w :: "32 word" and m j
    using that by (simp add: bit_ucast_iff bit_drop_bit_eq)
  consider "n < 8" | "8 \<le> n" "n < 16" | "16 \<le> n" "n < 24" | "24 \<le> n" "n < 32"
    using n by fastforce
  then show "bit a n = bit b n"
  proof cases
    case 1
    with k [of n a 0] k [of n b 0] e(4) show ?thesis by simp
  next
    case 2
    with k [of "n - 8" a 8] k [of "n - 8" b 8] e(3) show ?thesis by simp
  next
    case 3
    with k [of "n - 16" a 16] k [of "n - 16" b 16] e(2) show ?thesis by simp
  next
    case 4
    with k [of "n - 24" a 24] k [of "n - 24" b 24] e(1) show ?thesis by simp
  qed
qed

lemma Sprintf_x_Sum_inj:
  assumes "Sprintf_x (sum32a_Sum a) = Sprintf_x (sum32a_Sum b)"
  shows "a = b"
proof -
  have two: "\<exists>c d. hexByte w = [c, d]" for w
    by (simp add: hexByte_def)
  have "sum32a_Sum a = sum32a_Sum b"
  proof -
    obtain a0 a1 a2 a3 where sa: "sum32a_Sum a = [a0, a1, a2, a3]"
      by (simp add: sum32a_Sum_def)
    obtain b0 b1 b2 b3 where sb: "sum32a_Sum b = [b0, b1, b2, b3]"
      by (simp add: sum32a_Sum_def)
    from assms sa sb have
      "hexByte a0 @ hexByte a1 @ hexByte a2 @ hexByte a3
       = hexByte b0 @ hexByte b1 @ hexByte b2 @ hexByte b3"
      by (simp add: Sprintf_x_def)
    moreover have "length (hexByte w) = 2" for w
      by (simp add: hexByte_def)
    ultimately have "hexByte a0 = hexByte b0 \<and> hexByte a1 = hexByte b1
        \<and> hexByte a2 = hexByte b2 \<and> hexByte a3 = hexByte b3"
      by (simp add: append_eq_append_conv)
    with sa sb show ?thesis
      by (simp add: hexByte_inj)
  qed
  then show ?thesis by (rule sum32a_Sum_inj)
qed

text \<open>
  Claim C4, as the code has it. Two config maps holding the same key/value pairs, in
  whatever order the maps are iterated, get the same digest. Changing the value under
  one key changes the byte sequence written to the hash; the digest is the 32-bit FNV-1a
  hash of that sequence in hex, and two digests are equal exactly when the two hash
  states are: the digest changes too unless the two sequences collide under that hash.
\<close>

theorem computeConfigMapHash_stable:
  "(distinct (map fst (Data c1)) \<and> distinct (map fst (Data c2))
      \<and> set (Data c1) = set (Data c2) \<longrightarrow>
    computeConfigMapHash (Some c1) = computeConfigMapHash (Some c2))
   \<and> (distinct (map fst (Data c)) \<and> k \<in> fst ` set (Data c) \<and> v \<noteq> map_index (Data c) k \<longrightarrow>
    writtenBytes (setValue (Data c) k v) \<noteq> writtenBytes (Data c))
   \<and> computeConfigMapHash (Some c) =
       Inr (Sprintf_x (sum32a_Sum (sum32a_Write New32a (writtenBytes (Data c)))))
   \<and> (computeConfigMapHash (Some c1) = computeConfigMapHash (Some c2) \<longleftrightarrow>
        sum32a_Write New32a (writtenBytes (Data c1))
          = sum32a_Write New32a (writtenBytes (Data c2)))"
  using writtenBytes_order [of "Data c1" "Data c2"] writtenBytes_setValue [of "Data c" k v]
    Sprintf_x_Sum_inj
      [of "sum32a_Write New32a (writtenBytes (Data c1))"
          "sum32a_Write New32a (writtenBytes (Data c2))"]
  by (auto simp add: computeConfigMapHash_written)

theorem computeConfigMapHash_stable_witness:
  "computeConfigMapHash (Some pluginConfig)
     = computeConfigMapHash (Some (pluginConfig\<lparr>Data := [(''a'', ''1''), (''b'', ''2'')]\<rparr>))
   \<and> computeConfigMapHash (Some pluginConfig) = Inr ''f37d0979''
   \<and> writtenBytes (setValue (Data pluginConfig) ''b'' ''3'') \<noteq> writtenBytes (Data pluginConfig)
   \<and> computeConfigMapHash (Some (pluginConfig\<lparr>Data := setValue (Data pluginConfig) ''b'' ''3''\<rparr>))
       = Inr ''d97aa1f4''"
proof -
  let ?c2 = "pluginConfig\<lparr>Data := [(''a'', ''1''), (''b'', ''2'')]\<rparr>"
  have a: "distinct (map fst (Data pluginConfig)) \<and> distinct (map fst (Data ?c2))
      \<and> set (Data pluginConfig) = set (Data ?c2)"
    by (auto simp: pluginConfig_def)
  have b: "distinct (map fst (Data pluginConfig)) \<and> ''b'' \<in> fst ` set (Data pluginConfig)
      \<and> ''3'' \<noteq> map_index (Data pluginConfig) ''b''"
    by (simp add: pluginConfig_def map_index_def)
  have c: "computeConfigMapHash (Some pluginConfig) = Inr ''f37d0979''"
    by code_simp
  have d: "computeConfigMapHash (Some (pluginConfig\<lparr>Data := setValue (Data pluginConfig) ''b'' ''3''\<rparr>))
       = Inr ''d97aa1f4''"
    by code_simp
  from a b computeConfigMapHash_stable [of pluginConfig ?c2 pluginConfig "''b''" "''3''"]
  have "computeConfigMapHash (Some pluginConfig) = computeConfigMapHash (Some ?c2)
    \<and> writtenBytes (setValue (Data pluginConfig) ''b'' ''3'') \<noteq> writtenBytes (Data pluginConfig)"
    by blast
  with c d show ?thesis by simp
qed

text \<open>
  A collision: under the key \<open>config\<close> the values \<open>149599\<close> and \<open>312382\<close> give the
  same digest.
\<close>

theorem computeConfigMapHash_collision_counterexample:
  "map_index [(''config'', ''149599'')] ''config'' \<noteq> ''312382''
   \<and> setValue [(''config'', ''149599'')] ''config'' ''312382'' = [(''config'', ''312382'')]
   \<and> computeConfigMapHash (Some (pluginConfig\<lparr>Data := [(''config'', ''149599'')]\<rparr>))
     = Inr ''ce153bd8''
   \<and> computeConfigMapHash (Some (pluginConfig\<lparr>Data := [(''config'', ''312382'')]\<rparr>))
     = Inr ''ce153bd8''"
  by code_simp

end
